theory Spec2Isabelle
  imports Main "HOL-Library.Sublist"
begin

section \<open>Python strings and the built-ins the optimizer uses\<close>

text \<open>
  A Python \<^verbatim>\<open>str\<close> is a sequence of Unicode code points, so it is modelled as a list of
  natural numbers, one per code point (\<^verbatim>\<open>ord\<close> of the character). Membership, \<^verbatim>\<open>find\<close>,
  slicing, \<^verbatim>\<open>split\<close>, \<^verbatim>\<open>strip\<close> and the regular expressions of the source all work
  on code points. String literals of the source are written as their code points; ASCII
  literals go through \<open>ascii\<close>.
\<close>

type_synonym pystr = "nat list"

definition ascii :: "string \<Rightarrow> pystr" where
  "ascii s = map of_char s"

text \<open>The punctuation the source matches on: U+FF0C (fullwidth comma), U+3002
  (ideographic full stop) and the line feed.\<close>

definition comma :: nat where "comma = 65292"
definition period :: nat where "period = 12290"
definition newline :: nat where "newline = 10"

datatype error = IndexError

text \<open>\<^verbatim>\<open>sub in s\<close>: some suffix of \<open>s\<close> starts with \<open>sub\<close>.\<close>

fun py_in :: "pystr \<Rightarrow> pystr \<Rightarrow> bool" where
  "py_in sub [] = (sub = [])"
| "py_in sub (c # cs) = (prefix sub (c # cs) \<or> py_in sub cs)"

text \<open>\<^verbatim>\<open>s.find(sub, start)\<close>: the lowest index at or after \<open>start\<close> where \<open>sub\<close> occurs,
  or \<open>-1\<close>. \<open>find_at\<close> scans a suffix and carries the index of its first element.\<close>

fun find_at :: "pystr \<Rightarrow> pystr \<Rightarrow> nat \<Rightarrow> int" where
  "find_at sub [] i = (if sub = [] then int i else - 1)"
| "find_at sub (c # cs) i = (if prefix sub (c # cs) then int i else find_at sub cs (Suc i))"

definition py_find :: "pystr \<Rightarrow> pystr \<Rightarrow> int \<Rightarrow> int" where
  "py_find s sub start =
     (let n = int (length s);
          a = (if start < 0 then max 0 (start + n) else start)
      in if n < a then - 1 else find_at sub (drop (nat a) s) (nat a))"

text \<open>\<^verbatim>\<open>s[a:b]\<close> with Python's treatment of negative and out-of-range bounds.\<close>

definition clamp_index :: "int \<Rightarrow> int \<Rightarrow> nat" where
  "clamp_index n i = nat (min n (if i < 0 then max 0 (i + n) else i))"

definition py_slice :: "pystr \<Rightarrow> int \<Rightarrow> int \<Rightarrow> pystr" where
  "py_slice s a b =
     (let n = int (length s); lo = clamp_index n a; hi = clamp_index n b
      in take (hi - lo) (drop lo s))"

text \<open>\<^verbatim>\<open>s.split(sep)\<close> for a separator of one code point (the source splits on U+3002
  only), and \<^verbatim>\<open>xs[0]\<close>, which raises \<^verbatim>\<open>IndexError\<close> on an empty list.\<close>

fun py_split :: "pystr \<Rightarrow> nat \<Rightarrow> pystr list" where
  "py_split [] sep = [[]]"
| "py_split (c # cs) sep =
     (if c = sep then [] # py_split cs sep
      else (case py_split cs sep of
              [] \<Rightarrow> [[c]]
            | p # ps \<Rightarrow> (c # p) # ps))"

definition getitem0 :: "'a list \<Rightarrow> error + 'a" where
  "getitem0 xs = (case xs of [] \<Rightarrow> Inl IndexError | x # _ \<Rightarrow> Inr x)"

text \<open>\<^verbatim>\<open>s.strip()\<close> removes leading and trailing characters for which \<^verbatim>\<open>str.isspace\<close>
  holds; these are the code points below.\<close>

definition py_isspace :: "nat \<Rightarrow> bool" where
  "py_isspace c \<longleftrightarrow>
     c \<in> set [9, 10, 11, 12, 13, 28, 29, 30, 31, 32, 133, 160, 5760,
              8192, 8193, 8194, 8195, 8196, 8197, 8198, 8199, 8200, 8201, 8202,
              8232, 8233, 8239, 8287, 12288]"

definition py_strip :: "pystr \<Rightarrow> pystr" where
  "py_strip s = rev (dropWhile py_isspace (rev (dropWhile py_isspace s)))"

section \<open>The regular expressions of the source\<close>

text \<open>
  Every pattern of the source has the shape \<^verbatim>\<open>L(.*?)(?:C|P|$)\<close>, with \<open>L\<close> a literal
  lead-in, \<open>C\<close> the fullwidth comma and \<open>P\<close> the ideographic full stop; a pattern is
  represented by its lead-in. No flags are given, so \<^verbatim>\<open>.\<close> matches every code point except
  the line feed, and \<^verbatim>\<open>$\<close> matches at the end of the text and just before a line feed that
  is the last character of the text.

  \<open>lazy_group t\<close> matches \<^verbatim>\<open>(.*?)(?:C|P|$)\<close> at the start of \<open>t\<close>: the lazy star first tries
  the terminator and only when that fails consumes one more character. The result is
  group 1 and the text left after the whole match.
\<close>

type_synonym pattern = pystr

fun lazy_group :: "pystr \<Rightarrow> (pystr \<times> pystr) option" where
  "lazy_group [] = Some ([], [])"
| "lazy_group (c # cs) =
     (if c = comma \<or> c = period then Some ([], cs)
      else if c = newline then (if cs = [] then Some ([], [c]) else None)
      else map_option (\<lambda>(g, r). (c # g, r)) (lazy_group cs))"

text \<open>\<^verbatim>\<open>re.search(pattern, text)\<close>: the match at the leftmost start position that has
  one. A start position where the lead-in is present but the group meets a line feed
  before a terminator has no match, and the search moves on.\<close>

fun re_search :: "pattern \<Rightarrow> pystr \<Rightarrow> (pystr \<times> pystr) option" where
  "re_search lead [] = (if lead = [] then lazy_group [] else None)"
| "re_search lead (c # cs) =
     (if prefix lead (c # cs) then
        (case lazy_group (drop (length lead) (c # cs)) of
           Some m \<Rightarrow> Some m
         | None \<Rightarrow> re_search lead cs)
      else re_search lead cs)"

text \<open>\<^verbatim>\<open>m.group(1)\<close> of a successful search.\<close>

definition group1 :: "pystr \<times> pystr \<Rightarrow> pystr" where
  "group1 m = fst m"

text \<open>\<^verbatim>\<open>re.findall(pattern, text)\<close>: group 1 of every match, left to right, each search
  starting where the previous match ended. The patterns of the source have a non-empty
  lead-in, so a match is never empty; the first equation is for a lead-in the source does
  not have.\<close>

function re_findall :: "pattern \<Rightarrow> pystr \<Rightarrow> pystr list" where
  "re_findall [] text = []"
| "re_findall (l # ls) [] = []"
| "re_findall (l # ls) (c # cs) =
     (if prefix (l # ls) (c # cs) then
        (case lazy_group (drop (length ls) cs) of
           Some (g, r) \<Rightarrow> g # re_findall (l # ls) r
         | None \<Rightarrow> re_findall (l # ls) cs)
      else re_findall (l # ls) cs)"
  by pat_completeness auto
termination
proof -
  have rest: "length r \<le> length t" if "lazy_group t = Some (g, r)" for t g r
    using that
  proof (induction t arbitrary: g r)
    case Nil
    then show ?case by simp
  next
    case (Cons c cs)
    then show ?case by (fastforce split: if_splits)
  qed
  show ?thesis
    by (relation "measure (\<lambda>(lead, text). length text)") (auto dest!: rest)
qed

section \<open>The optimizer\<close>

text \<open>
  \<^verbatim>\<open>PromptType\<close> is an enumeration whose members carry their string value.
\<close>

datatype PromptType = CREATIVE | ANALYTICAL | CONVERSATIONAL | INSTRUCTIONAL

fun PromptType_value :: "PromptType \<Rightarrow> pystr" where
  "PromptType_value CREATIVE = ascii ''creative''"
| "PromptType_value ANALYTICAL = ascii ''analytical''"
| "PromptType_value CONVERSATIONAL = ascii ''conversational''"
| "PromptType_value INSTRUCTIONAL = ascii ''instructional''"

record PromptStructure =
  role :: pystr
  task :: pystr
  "context" :: pystr
  requirements :: "pystr list"
  format :: pystr
  examples :: "pystr list"
  constraints :: "pystr list"
  tone :: pystr
  prompt_type :: pystr

text \<open>
  The instance attributes set by \<^verbatim>\<open>__init__\<close>. A dictionary literal is iterated in the
  order it is written and its keys are distinct, so it is the list of its items. No method
  assigns to an attribute after construction; a method is a function of the instance and
  its arguments.
\<close>

record PromptOptimizer =
  role_keywords :: "(pystr \<times> pystr) list"
  task_patterns :: "pattern list"
  format_keywords :: "(pystr \<times> pystr) list"
  tone_keywords :: "(pystr \<times> pystr) list"

definition init :: PromptOptimizer where
  "init =
     \<lparr> role_keywords =
         [([19987, 23478], ascii ''expert''), ([21161, 25163], ascii ''assistant''),
          ([32769, 24072], ascii ''teacher''), ([20998, 26512, 24072], ascii ''analyst''),
          ([39038, 38382], ascii ''consultant''), ([20316, 23478], ascii ''writer'')],
       task_patterns =
         [[24110, 25105], [35831], [38656, 35201], [24819, 35201]],
       format_keywords =
         [([21015, 34920], ascii ''list''), ([34920, 26684], ascii ''table''),
          ([27573, 33853], ascii ''paragraph''), ([35201, 28857], ascii ''bullet_points''),
          ([20195, 30721], ascii ''code''), ([25253, 21578], ascii ''report'')],
       tone_keywords =
         [([19987, 19994], ascii ''professional''), ([21451, 22909], ascii ''friendly''),
          ([27491, 24335], ascii ''formal''), ([24189, 40664], ascii ''humorous''),
          ([31616, 27905], ascii ''concise''), ([35814, 32454], ascii ''detailed'')] \<rparr>"

text \<open>The analysis dictionary built by \<^verbatim>\<open>analyze_natural_prompt\<close> has exactly the seven
  keys of its literal; it is a record with one field per key.\<close>

record analysis =
  analysis_role :: pystr
  analysis_task :: pystr
  analysis_context :: pystr
  analysis_requirements :: "pystr list"
  analysis_format :: pystr
  analysis_tone :: pystr
  analysis_prompt_type :: pystr

subsection \<open>Role\<close>

text \<open>The loop over \<^verbatim>\<open>role_keywords.items()\<close>; the result is the f-string of the lead
  U+4F60 U+662F U+4E00 U+4F4D and the keyword, or that lead followed by \<^verbatim>\<open>AI\<close> and
  U+52A9 U+624B.\<close>

fun extract_role_loop :: "(pystr \<times> pystr) list \<Rightarrow> pystr \<Rightarrow> pystr" where
  "extract_role_loop [] prompt = [20320, 26159, 19968, 20301, 65, 73, 21161, 25163]"
| "extract_role_loop ((keyword, role_tag) # items) prompt =
     (if py_in keyword prompt then [20320, 26159, 19968, 20301] @ keyword
      else extract_role_loop items prompt)"

definition extract_role :: "PromptOptimizer \<Rightarrow> pystr \<Rightarrow> pystr" where
  "extract_role self prompt = extract_role_loop (role_keywords self) prompt"

subsection \<open>Task\<close>

fun extract_task_loop :: "pattern list \<Rightarrow> pystr \<Rightarrow> pystr option" where
  "extract_task_loop [] prompt = None"
| "extract_task_loop (pattern # patterns) prompt =
     (case re_search pattern prompt of
        Some m \<Rightarrow> Some (py_strip (group1 m))
      | None \<Rightarrow> extract_task_loop patterns prompt)"

definition extract_task :: "PromptOptimizer \<Rightarrow> pystr \<Rightarrow> error + pystr" where
  "extract_task self prompt =
     (case extract_task_loop (task_patterns self) prompt of
        Some t \<Rightarrow> Inr t
      | None \<Rightarrow>
          if py_in [period] prompt then getitem0 (py_split prompt period)
          else Inr prompt)"

subsection \<open>Context\<close>

text \<open>The indicators are U+80CC U+666F, U+60C5 U+51B5, U+573A U+666F and U+73AF U+5883.
  When the full stop is not found after an indicator the loop goes on to the next
  indicator.\<close>

definition context_indicators :: "pystr list" where
  "context_indicators = [[32972, 26223], [24773, 20917], [22330, 26223], [29615, 22659]]"

fun extract_context_loop :: "pystr list \<Rightarrow> pystr \<Rightarrow> pystr" where
  "extract_context_loop [] prompt = []"
| "extract_context_loop (indicator # indicators) prompt =
     (if py_in indicator prompt then
        (let start = py_find prompt indicator 0;
             end_ix = py_find prompt [period] start
         in if end_ix \<noteq> - 1 then py_slice prompt start (end_ix + 1)
            else extract_context_loop indicators prompt)
      else extract_context_loop indicators prompt)"

definition extract_context :: "PromptOptimizer \<Rightarrow> pystr \<Rightarrow> pystr" where
  "extract_context self prompt = extract_context_loop context_indicators prompt"

subsection \<open>Requirements\<close>

text \<open>The patterns start with U+8981 U+6C42 U+FF1A, U+9700 U+8981 and U+5FC5 U+987B. The
  loop extends the list of requirements (\<open>reqs\<close>) by the stripped matches of each pattern; the
  default is U+751F U+6210 U+9AD8 U+8D28 U+91CF U+7684 U+56DE U+7B54.\<close>

definition requirement_patterns :: "pattern list" where
  "requirement_patterns = [[35201, 27714, 65306], [38656, 35201], [24517, 39035]]"

fun extract_requirements_loop :: "pattern list \<Rightarrow> pystr \<Rightarrow> pystr list \<Rightarrow> pystr list" where
  "extract_requirements_loop [] prompt reqs = reqs"
| "extract_requirements_loop (pattern # patterns) prompt reqs =
     (let matches = re_findall pattern prompt
      in extract_requirements_loop patterns prompt (reqs @ map py_strip matches))"

definition extract_requirements :: "PromptOptimizer \<Rightarrow> pystr \<Rightarrow> pystr list" where
  "extract_requirements self prompt =
     (let reqs = extract_requirements_loop requirement_patterns prompt []
      in if reqs \<noteq> [] then reqs
         else [[29983, 25104, 39640, 36136, 37327, 30340, 22238, 31572]])"

subsection \<open>Format and tone\<close>

fun extract_format_loop :: "(pystr \<times> pystr) list \<Rightarrow> pystr \<Rightarrow> pystr" where
  "extract_format_loop [] prompt = ascii ''paragraph''"
| "extract_format_loop ((keyword, format_type) # items) prompt =
     (if py_in keyword prompt then format_type else extract_format_loop items prompt)"

definition extract_format :: "PromptOptimizer \<Rightarrow> pystr \<Rightarrow> pystr" where
  "extract_format self prompt = extract_format_loop (format_keywords self) prompt"

fun extract_tone_loop :: "(pystr \<times> pystr) list \<Rightarrow> pystr \<Rightarrow> pystr" where
  "extract_tone_loop [] prompt = ascii ''professional''"
| "extract_tone_loop ((keyword, tone_tag) # items) prompt =
     (if py_in keyword prompt then tone_tag else extract_tone_loop items prompt)"

definition extract_tone :: "PromptOptimizer \<Rightarrow> pystr \<Rightarrow> pystr" where
  "extract_tone self prompt = extract_tone_loop (tone_keywords self) prompt"

subsection \<open>Prompt type\<close>

definition creative_keywords :: "pystr list" where
  "creative_keywords = [[21019, 20316], [24819, 35937], [21019, 24847], [25925, 20107]]"

definition analytical_keywords :: "pystr list" where
  "analytical_keywords = [[20998, 26512], [35780, 20272], [27604, 36739], [30740, 31350]]"

definition instructional_keywords :: "pystr list" where
  "instructional_keywords = [[25945], [35299, 37322], [25351, 23548], [27493, 39588]]"

text \<open>\<^verbatim>\<open>any(keyword in prompt for keyword in keywords)\<close>.\<close>

definition any_in :: "pystr list \<Rightarrow> pystr \<Rightarrow> bool" where
  "any_in keywords prompt = list_ex (\<lambda>keyword. py_in keyword prompt) keywords"

definition classify_prompt_type :: "PromptOptimizer \<Rightarrow> pystr \<Rightarrow> pystr" where
  "classify_prompt_type self prompt =
     (if any_in creative_keywords prompt then PromptType_value CREATIVE
      else if any_in analytical_keywords prompt then PromptType_value ANALYTICAL
      else if any_in instructional_keywords prompt then PromptType_value INSTRUCTIONAL
      else PromptType_value CONVERSATIONAL)"

subsection \<open>Analysis\<close>

text \<open>The dictionary literal evaluates its values in the order written; only the task can
  raise.\<close>

definition analyze_natural_prompt :: "PromptOptimizer \<Rightarrow> pystr \<Rightarrow> error + analysis" where
  "analyze_natural_prompt self prompt =
     (let r = extract_role self prompt in
      case extract_task self prompt of
        Inl e \<Rightarrow> Inl e
      | Inr t \<Rightarrow>
          Inr \<lparr> analysis_role = r,
                analysis_task = t,
                analysis_context = extract_context self prompt,
                analysis_requirements = extract_requirements self prompt,
                analysis_format = extract_format self prompt,
                analysis_tone = extract_tone self prompt,
                analysis_prompt_type = classify_prompt_type self prompt \<rparr>)"

subsection \<open>Examples and constraints\<close>

text \<open>\<^verbatim>\<open>d.get(key, default)\<close> on a dictionary literal.\<close>

definition dict_get :: "('k \<times> 'v) list \<Rightarrow> 'k \<Rightarrow> 'v \<Rightarrow> 'v" where
  "dict_get d k dflt = (case map_of d k of Some v \<Rightarrow> v | None \<Rightarrow> dflt)"

definition examples_map :: "(pystr \<times> pystr list) list" where
  "examples_map =
     [(ascii ''creative'',
         [[31034, 20363, 65306, 21019, 20316, 19968, 20010, 20851, 20110, 26410, 26469,
           31185, 25216, 30340, 30701, 25925, 20107]]),
      (ascii ''analytical'',
         [[31034, 20363, 65306, 20998, 26512, 35813, 31574, 30053, 30340, 20248, 32570, 28857]]),
      (ascii ''instructional'',
         [[31034, 20363, 65306, 27493, 39588, 49, 58, 32, 20934, 22791, 26448, 26009, 59, 32,
           27493, 39588, 50, 58, 32, 24320, 22987, 25805, 20316]]),
      (ascii ''conversational'',
         [[31034, 20363, 65306, 29992, 25143, 21451, 22909, 30340, 23545, 35805, 26041,
           24335, 22238, 31572]])]"

definition generate_examples :: "PromptOptimizer \<Rightarrow> pystr \<Rightarrow> pystr list" where
  "generate_examples self ptype =
     dict_get examples_map ptype [[25552, 20379, 30456, 20851, 31034, 20363]]"

definition constraints_map :: "(pystr \<times> pystr list) list" where
  "constraints_map =
     [(ascii ''creative'',
         [[20445, 25345, 20869, 23481, 31215, 26497, 21521, 19978],
          [36991, 20813, 25935, 24863, 35805, 39064]]),
      (ascii ''analytical'',
         [[22522, 20110, 20107, 23454, 21644, 25968, 25454],
          [20445, 25345, 23458, 35266, 24615]]),
      (ascii ''instructional'',
         [[27493, 39588, 28165, 26224, 26126, 30830],
          [26131, 20110, 29702, 35299, 21644, 25191, 34892]]),
      (ascii ''conversational'',
         [[35821, 35328, 33258, 28982, 27969, 30021],
          [22238, 31572, 31616, 27905, 26126, 20102]])]"

definition generate_constraints :: "PromptOptimizer \<Rightarrow> pystr \<Rightarrow> pystr list" where
  "generate_constraints self ptype =
     dict_get constraints_map ptype
       [[36981, 24490, 22522, 26412, 21407, 21017], [30830, 20445, 20869, 23481, 20934, 30830]]"

subsection \<open>Serialisation\<close>

text \<open>
  \<^verbatim>\<open>asdict\<close> of a \<^verbatim>\<open>PromptStructure\<close> is a dictionary from the field names, in declaration
  order, to strings and lists of strings. \<^verbatim>\<open>json.dumps(d, ensure_ascii=False, indent=2)\<close>
  writes the quotation mark, the backslash and the control characters below U+0020
  escaped and every other code point as it is; with an indent, items are separated by a
  comma and a line feed, each on a line of its own indented by two spaces per level, and
  an empty container is written without a line break.
\<close>

datatype json = JStr pystr | JList "pystr list"

definition asdict :: "PromptStructure \<Rightarrow> (pystr \<times> json) list" where
  "asdict p =
     [(ascii ''role'', JStr (role p)),
      (ascii ''task'', JStr (task p)),
      (ascii ''context'', JStr (context p)),
      (ascii ''requirements'', JList (requirements p)),
      (ascii ''format'', JStr (format p)),
      (ascii ''examples'', JList (examples p)),
      (ascii ''constraints'', JList (constraints p)),
      (ascii ''tone'', JStr (tone p)),
      (ascii ''prompt_type'', JStr (prompt_type p))]"

definition hex_digit :: "nat \<Rightarrow> nat" where
  "hex_digit d = (if d < 10 then 48 + d else 87 + d)"

definition escape_char :: "nat \<Rightarrow> pystr" where
  "escape_char c =
     (if c = 34 then [92, 34]
      else if c = 92 then [92, 92]
      else if c = 10 then [92, 110]
      else if c = 13 then [92, 114]
      else if c = 9 then [92, 116]
      else if c = 12 then [92, 102]
      else if c = 8 then [92, 98]
      else if c < 32 then [92, 117, 48, 48, hex_digit (c div 16), hex_digit (c mod 16)]
      else [c])"

definition encode_basestring :: "pystr \<Rightarrow> pystr" where
  "encode_basestring s = [34] @ concat (map escape_char s) @ [34]"

text \<open>\<^verbatim>\<open>sep.join(xs)\<close>.\<close>

fun join :: "pystr \<Rightarrow> pystr list \<Rightarrow> pystr" where
  "join sep [] = []"
| "join sep [x] = x"
| "join sep (x # y # ys) = x @ sep @ join sep (y # ys)"

text \<open>A list of strings one level inside the dictionary, and a value of the dictionary.\<close>

definition dumps_list :: "pystr list \<Rightarrow> pystr" where
  "dumps_list xs =
     (if xs = [] then ascii ''[]''
      else ascii ''['' @ [10] @ ascii ''    ''
           @ join (ascii '','' @ [10] @ ascii ''    '') (map encode_basestring xs)
           @ [10] @ ascii ''  '' @ ascii '']'')"

fun dumps_value :: "json \<Rightarrow> pystr" where
  "dumps_value (JStr s) = encode_basestring s"
| "dumps_value (JList xs) = dumps_list xs"

definition dumps_item :: "pystr \<times> json \<Rightarrow> pystr" where
  "dumps_item kv = encode_basestring (fst kv) @ ascii '': '' @ dumps_value (snd kv)"

definition json_dumps :: "(pystr \<times> json) list \<Rightarrow> pystr" where
  "json_dumps d =
     (if d = [] then ascii ''{}''
      else ascii ''{'' @ [10] @ ascii ''  ''
           @ join (ascii '','' @ [10] @ ascii ''  '') (map dumps_item d)
           @ [10] @ ascii ''}'')"

subsection \<open>Optimisation\<close>

text \<open>\<open>optimized_prompt\<close> is the \<^verbatim>\<open>PromptStructure\<close> that \<^verbatim>\<open>optimize_prompt\<close> builds (its
  local variable of that name); \<^verbatim>\<open>x or d\<close> on strings is \<open>d\<close> when \<open>x\<close> is empty. The
  default context is U+7528 U+6237 U+9700 U+8981 U+4E13 U+4E1A U+7684 U+5E2E U+52A9.\<close>

definition optimized_prompt :: "PromptOptimizer \<Rightarrow> pystr \<Rightarrow> error + PromptStructure" where
  "optimized_prompt self natural_prompt =
     (case analyze_natural_prompt self natural_prompt of
        Inl e \<Rightarrow> Inl e
      | Inr a \<Rightarrow>
          Inr \<lparr> role = analysis_role a,
                task = analysis_task a,
                context = (if analysis_context a \<noteq> [] then analysis_context a
                           else [29992, 25143, 38656, 35201, 19987, 19994, 30340, 24110, 21161]),
                requirements = analysis_requirements a,
                format = analysis_format a,
                examples = generate_examples self (analysis_prompt_type a),
                constraints = generate_constraints self (analysis_prompt_type a),
                tone = analysis_tone a,
                prompt_type = analysis_prompt_type a \<rparr>)"

definition optimize_prompt :: "PromptOptimizer \<Rightarrow> pystr \<Rightarrow> error + pystr" where
  "optimize_prompt self natural_prompt =
     (case optimized_prompt self natural_prompt of
        Inl e \<Rightarrow> Inl e
      | Inr p \<Rightarrow> Inr (json_dumps (asdict p)))"

subsection \<open>Calls on the optimizer of \<^verbatim>\<open>main\<close>\<close>

text \<open>The prompt \<^verbatim>\<open>main\<close> optimises first.\<close>

definition main_natural_prompt :: pystr where
  "main_natural_prompt =
     [35831, 24110, 25105, 20889, 19968, 20010, 20851, 20110, 20154, 24037, 26234, 33021,
      21457, 23637, 30340, 19987, 19994, 20998, 26512, 25253, 21578, 65292, 35201, 27714,
      35814, 32454, 20998, 26512, 29616, 29366, 21644, 36235, 21183]"

text \<open>
  A Python method receives the instance itself and could assign to its attributes, and
  \<^verbatim>\<open>main\<close> calls the methods of one optimizer again and again. A call is therefore a
  function from the instance before the call to the value returned and the instance after
  it; a method that calls other methods hands the instance on from each call to the next.
\<close>

type_synonym 'a call = "PromptOptimizer \<Rightarrow> 'a \<times> PromptOptimizer"

text \<open>The extractors, the classifier and the two generators read attributes and assign to
  none, so each returns the value given above and the instance it received.\<close>

definition extract_role_call :: "pystr \<Rightarrow> pystr call" where
  "extract_role_call prompt self = (extract_role self prompt, self)"

definition extract_task_call :: "pystr \<Rightarrow> (error + pystr) call" where
  "extract_task_call prompt self = (extract_task self prompt, self)"

definition extract_context_call :: "pystr \<Rightarrow> pystr call" where
  "extract_context_call prompt self = (extract_context self prompt, self)"

definition extract_requirements_call :: "pystr \<Rightarrow> pystr list call" where
  "extract_requirements_call prompt self = (extract_requirements self prompt, self)"

definition extract_format_call :: "pystr \<Rightarrow> pystr call" where
  "extract_format_call prompt self = (extract_format self prompt, self)"

definition extract_tone_call :: "pystr \<Rightarrow> pystr call" where
  "extract_tone_call prompt self = (extract_tone self prompt, self)"

definition classify_prompt_type_call :: "pystr \<Rightarrow> pystr call" where
  "classify_prompt_type_call prompt self = (classify_prompt_type self prompt, self)"

definition generate_examples_call :: "pystr \<Rightarrow> pystr list call" where
  "generate_examples_call ptype self = (generate_examples self ptype, self)"

definition generate_constraints_call :: "pystr \<Rightarrow> pystr list call" where
  "generate_constraints_call ptype self = (generate_constraints self ptype, self)"

text \<open>\<^verbatim>\<open>analyze_natural_prompt\<close> makes its seven calls in the order of the dictionary
  literal, and \<^verbatim>\<open>optimize_prompt\<close> calls it and then the two generators, in the order of the
  arguments of \<^verbatim>\<open>PromptStructure\<close>.\<close>

definition analyze_natural_prompt_call :: "pystr \<Rightarrow> (error + analysis) call" where
  "analyze_natural_prompt_call prompt self0 =
     (let (r, self1) = extract_role_call prompt self0;
          (t, self2) = extract_task_call prompt self1
      in case t of
           Inl e \<Rightarrow> (Inl e, self2)
         | Inr t \<Rightarrow>
             (let (c, self3) = extract_context_call prompt self2;
                  (rs, self4) = extract_requirements_call prompt self3;
                  (f, self5) = extract_format_call prompt self4;
                  (tn, self6) = extract_tone_call prompt self5;
                  (pt, self7) = classify_prompt_type_call prompt self6
              in (Inr \<lparr> analysis_role = r,
                         analysis_task = t,
                         analysis_context = c,
                         analysis_requirements = rs,
                         analysis_format = f,
                         analysis_tone = tn,
                         analysis_prompt_type = pt \<rparr>, self7)))"

definition optimize_prompt_call :: "pystr \<Rightarrow> (error + pystr) call" where
  "optimize_prompt_call natural_prompt self0 =
     (let (res, self1) = analyze_natural_prompt_call natural_prompt self0
      in case res of
           Inl e \<Rightarrow> (Inl e, self1)
         | Inr a \<Rightarrow>
             (let (exs, self2) = generate_examples_call (analysis_prompt_type a) self1;
                  (cons, self3) = generate_constraints_call (analysis_prompt_type a) self2;
                  optimized =
                    \<lparr> role = analysis_role a,
                      task = analysis_task a,
                      context = (if analysis_context a \<noteq> [] then analysis_context a
                                 else [29992, 25143, 38656, 35201, 19987, 19994, 30340, 24110, 21161]),
                      requirements = analysis_requirements a,
                      format = analysis_format a,
                      examples = exs,
                      constraints = cons,
                      tone = analysis_tone a,
                      prompt_type = analysis_prompt_type a \<rparr>
              in (Inr (json_dumps (asdict optimized)), self3)))"

text \<open>
  \<^verbatim>\<open>main\<close> builds one optimizer, runs \<^verbatim>\<open>optimize_prompt\<close> on a fixed prompt and then reads
  lines until one of them, lower-cased, is \<^verbatim>\<open>quit\<close>; every other line is passed to
  \<^verbatim>\<open>optimize_prompt\<close> of that same optimizer and the result, or the exception caught, is
  printed. The argument of \<open>interactive_loop\<close> after the case mapping is the list of lines
  \<^verbatim>\<open>input\<close> returns, in order (the loop also ends when they run out, by \<^verbatim>\<open>EOFError\<close>);
  the value is what the iterations print, in order, and the optimizer as the loop leaves
  it. \<^verbatim>\<open>str.lower\<close> is a parameter: nothing below depends on the case mapping.
\<close>

fun interactive_loop ::
  "(pystr \<Rightarrow> pystr) \<Rightarrow> pystr list \<Rightarrow> (error + pystr) list call" where
  "interactive_loop lower [] optimizer = ([], optimizer)"
| "interactive_loop lower (user_input # inputs) optimizer =
     (if lower user_input = ascii ''quit'' then ([], optimizer)
      else
        (let (result, optimizer1) = optimize_prompt_call user_input optimizer;
             (results, optimizer2) = interactive_loop lower inputs optimizer1
         in (result # results, optimizer2)))"

section \<open>Reading the serialised form back\<close>

text \<open>
  Modelled from the spec: the parser of the serialised output, which the repository does
  not contain. The spec's round trip reads the JSON text back into the fields; the decoder
  below is the JSON grammar as Python's \<^verbatim>\<open>json.loads\<close> reads it, restricted to the documents
  the optimizer writes: an object whose values are strings or arrays of strings. Whitespace
  is space, tab, line feed and carriage return; a string may not contain a raw control
  character; the escapes are the two-character ones and \<^verbatim>\<open>\uXXXX\<close> with four hexadecimal
  digits. A document outside this fragment (a number, a literal, a nested object, an escape
  in the high-surrogate range) has the value \<open>None\<close>, as a malformed one has. Items are
  stored into the resulting dictionary in the order read, a repeated key overwriting the
  value stored before.
\<close>

text \<open>Whitespace between tokens, and the value of a hexadecimal digit.\<close>

definition is_ws :: "nat \<Rightarrow> bool" where
  "is_ws c \<longleftrightarrow> c = 32 \<or> c = 9 \<or> c = 10 \<or> c = 13"

definition skip_ws :: "pystr \<Rightarrow> pystr" where
  "skip_ws t = dropWhile is_ws t"

definition hex_value :: "nat \<Rightarrow> nat option" where
  "hex_value c =
     (if 48 \<le> c \<and> c \<le> 57 then Some (c - 48)
      else if 97 \<le> c \<and> c \<le> 102 then Some (c - 87)
      else if 65 \<le> c \<and> c \<le> 70 then Some (c - 55)
      else None)"

definition hex4 :: "nat \<Rightarrow> nat \<Rightarrow> nat \<Rightarrow> nat \<Rightarrow> nat option" where
  "hex4 h1 h2 h3 h4 =
     (case hex_value h1 of None \<Rightarrow> None | Some a \<Rightarrow>
      case hex_value h2 of None \<Rightarrow> None | Some b \<Rightarrow>
      case hex_value h3 of None \<Rightarrow> None | Some c \<Rightarrow>
      case hex_value h4 of None \<Rightarrow> None | Some d \<Rightarrow>
        Some (((a * 16 + b) * 16 + c) * 16 + d))"

text \<open>The character a two-character escape stands for.\<close>

definition unescape :: "nat \<Rightarrow> nat option" where
  "unescape e =
     (if e = 34 then Some 34
      else if e = 92 then Some 92
      else if e = 47 then Some 47
      else if e = 98 then Some 8
      else if e = 102 then Some 12
      else if e = 110 then Some 10
      else if e = 114 then Some 13
      else if e = 116 then Some 9
      else None)"

text \<open>\<open>consume x res\<close> puts \<open>x\<close> in front of what the rest of a scan produced.
  \<open>scanstring\<close> reads a string from just after its opening quotation mark and returns it
  with the text after the closing one.\<close>

definition consume :: "'a \<Rightarrow> ('a list \<times> pystr) option \<Rightarrow> ('a list \<times> pystr) option" where
  "consume x res = map_option (\<lambda>(xs, r). (x # xs, r)) res"

fun scanstring :: "pystr \<Rightarrow> (pystr \<times> pystr) option" where
  "scanstring [] = None"
| "scanstring (c # cs) =
     (if c = 34 then Some ([], cs)
      else if c = 92 then
        (case cs of
           [] \<Rightarrow> None
         | e # es \<Rightarrow>
             if e = 117 then
               (case es of
                  h1 # h2 # h3 # h4 # rest \<Rightarrow>
                    (case hex4 h1 h2 h3 h4 of
                       None \<Rightarrow> None
                     | Some n \<Rightarrow>
                         if 55296 \<le> n \<and> n \<le> 56319 then None
                         else consume n (scanstring rest))
                | _ \<Rightarrow> None)
             else
               (case unescape e of
                  None \<Rightarrow> None
                | Some ch \<Rightarrow> consume ch (scanstring es)))
      else if c < 32 then None
      else consume c (scanstring cs))"

text \<open>The elements of a non-empty array, from the first one up to and including the closing
  bracket: strings separated by commas, with optional whitespace around the commas.\<close>

function parse_elems :: "pystr \<Rightarrow> (pystr list \<times> pystr) option" where
  "parse_elems [] = None"
| "parse_elems (c # t1) =
     (if c \<noteq> 34 then None
      else
        (case scanstring t1 of
           None \<Rightarrow> None
         | Some (s, t2) \<Rightarrow>
             (case skip_ws t2 of
                [] \<Rightarrow> None
              | d # t3 \<Rightarrow>
                  if d = 93 then Some ([s], t3)
                  else if d = 44 then consume s (parse_elems (skip_ws t3))
                  else None)))"
  by pat_completeness auto
termination
proof -
  have scan: "length r \<le> length t" if "scanstring t = Some (s, r)" for t s r
    using that
  proof (induction t arbitrary: s r rule: scanstring.induct)
    case 1
    then show ?case by simp
  next
    case (2 c cs)
    then show ?case
      by (fastforce simp: consume_def split: if_splits list.splits option.splits)
  qed
  have ws: "length (skip_ws t) \<le> length t" for t
    by (simp add: skip_ws_def length_dropWhile_le)
  show ?thesis
  proof (relation "measure length")
    show "wf (measure length)" by simp
  next
    fix c :: nat and t1 x2 s t2 d t3
    assume a: "scanstring t1 = Some x2" "(s, t2) = x2" "skip_ws t2 = d # t3"
    then have "length t2 \<le> length t1" using scan [of t1 s t2] by simp
    moreover have "length (d # t3) \<le> length t2" using ws [of t2] a by simp
    moreover have "length (skip_ws t3) \<le> length t3" by (rule ws)
    ultimately show "(skip_ws t3, c # t1) \<in> measure length" by simp
  qed
qed



text \<open>An array from just after its opening bracket, and a value: a string or an array.\<close>

definition parse_array :: "pystr \<Rightarrow> (pystr list \<times> pystr) option" where
  "parse_array t =
     (case skip_ws t of
        [] \<Rightarrow> None
      | c # t1 \<Rightarrow> if c = 93 then Some ([], t1) else parse_elems (c # t1))"

definition parse_value :: "pystr \<Rightarrow> (json \<times> pystr) option" where
  "parse_value t =
     (case t of
        [] \<Rightarrow> None
      | c # t1 \<Rightarrow>
          if c = 34 then map_option (\<lambda>(s, r). (JStr s, r)) (scanstring t1)
          else if c = 91 then map_option (\<lambda>(xs, r). (JList xs, r)) (parse_array t1)
          else None)"

text \<open>The members of a non-empty object, from the first key up to and including the closing
  brace: a key, a colon, a value, separated by commas.\<close>

function parse_members :: "pystr \<Rightarrow> ((pystr \<times> json) list \<times> pystr) option" where
  "parse_members [] = None"
| "parse_members (c # t1) =
     (if c \<noteq> 34 then None
      else
        (case scanstring t1 of
           None \<Rightarrow> None
         | Some (key, t2) \<Rightarrow>
             (case skip_ws t2 of
                [] \<Rightarrow> None
              | d # t3 \<Rightarrow>
                  if d \<noteq> 58 then None
                  else
                    (case parse_value (skip_ws t3) of
                       None \<Rightarrow> None
                     | Some (v, t4) \<Rightarrow>
                         (case skip_ws t4 of
                            [] \<Rightarrow> None
                          | e # t5 \<Rightarrow>
                              if e = 125 then Some ([(key, v)], t5)
                              else if e = 44 then consume (key, v) (parse_members (skip_ws t5))
                              else None)))))"
  by pat_completeness auto
termination
proof -
  have scan: "length r \<le> length t" if "scanstring t = Some (s, r)" for t s r
      using that
    proof (induction t arbitrary: s r rule: scanstring.induct)
      case 1
      then show ?case by simp
    next
      case (2 c cs)
      then show ?case
        by (fastforce simp: consume_def split: if_splits list.splits option.splits)
    qed
  have ws: "length (skip_ws t) \<le> length t" for t
      by (simp add: skip_ws_def length_dropWhile_le)
  have elems: "length r \<le> length t" if "parse_elems t = Some (xs, r)" for t xs r
      using that
    proof (induction t arbitrary: xs r rule: parse_elems.induct)
      case 1
      then show ?case by simp
    next
      case (2 c t1)
      from "2.prems" obtain s t2 d t3 where
        c: "c = 34" and s: "scanstring t1 = Some (s, t2)" and w: "skip_ws t2 = d # t3"
        by (auto split: if_splits option.splits list.splits)
      have l2: "length t2 \<le> length t1" using scan [OF s] .
      have l3: "length (d # t3) \<le> length t2" using ws [of t2] w by simp
      show ?case
      proof (cases "d = 93")
        case True
        with "2.prems" c s w have "r = t3" by simp
        with l2 l3 show ?thesis by simp
      next
        case False
        with "2.prems" c s w obtain ys where
          d: "d = 44" and rec: "parse_elems (skip_ws t3) = Some (ys, r)"
          by (auto simp: consume_def split: if_splits)
        have "length r \<le> length (skip_ws t3)"
          using "2.IH" [OF _ s refl w False d rec] c by simp
        with ws [of t3] l2 l3 show ?thesis by simp
      qed
    qed

  have arr: "length r \<le> length t" if "parse_array t = Some (xs, r)" for t xs r
  proof (cases "skip_ws t")
    case Nil
    with that show ?thesis by (simp add: parse_array_def)
  next
    case (Cons c t1)
    show ?thesis
    proof (cases "c = 93")
      case True
      with that Cons have "r = t1" by (simp add: parse_array_def)
      with ws [of t] Cons show ?thesis by simp
    next
      case False
      with that Cons have "parse_elems (c # t1) = Some (xs, r)" by (simp add: parse_array_def)
      from elems [OF this] ws [of t] Cons show ?thesis by simp
    qed
  qed

  have val: "length r \<le> length t" if "parse_value t = Some (v, r)" for t v r
  proof (cases t)
    case Nil
    with that show ?thesis by (simp add: parse_value_def)
  next
    case (Cons c t1)
    consider "c = 34" | "c = 91" "c \<noteq> 34" | "c \<noteq> 34" "c \<noteq> 91" by blast
    then show ?thesis
    proof cases
      case 1
      with that Cons obtain s where "scanstring t1 = Some (s, r)"
        by (auto simp: parse_value_def)
      from scan [OF this] Cons show ?thesis by simp
    next
      case 2
      with that Cons obtain xs where "parse_array t1 = Some (xs, r)"
        by (auto simp: parse_value_def)
      from arr [OF this] Cons show ?thesis by simp
    next
      case 3
      with that Cons show ?thesis by (simp add: parse_value_def)
    qed
  qed
  show ?thesis
  proof (relation "measure length")
    show "wf (measure length)" by simp
  next
    fix c :: nat and t1 x2 key t2 d t3 x2a v t4 e t5
    assume a: "scanstring t1 = Some x2" "(key, t2) = x2" "skip_ws t2 = d # t3"
      "parse_value (skip_ws t3) = Some x2a" "(v, t4) = x2a" "skip_ws t4 = e # t5"
    have "length t2 \<le> length t1" using scan [of t1 key t2] a by simp
    moreover have "length (d # t3) \<le> length t2" using ws [of t2] a by simp
    moreover have "length t4 \<le> length (skip_ws t3)" using val [of "skip_ws t3" v t4] a by simp
    moreover have "length (skip_ws t3) \<le> length t3" by (rule ws)
    moreover have "length (e # t5) \<le> length t4" using ws [of t4] a by simp
    moreover have "length (skip_ws t5) \<le> length t5" by (rule ws)
    ultimately show "(skip_ws t5, c # t1) \<in> measure length" by simp
  qed
qed

text \<open>An object from just after its opening brace; storing the pairs read into a dictionary.\<close>

definition parse_object :: "pystr \<Rightarrow> ((pystr \<times> json) list \<times> pystr) option" where
  "parse_object t =
     (case skip_ws t of
        [] \<Rightarrow> None
      | c # t1 \<Rightarrow> if c = 125 then Some ([], t1) else parse_members (c # t1))"

fun dict_setitem :: "('k \<times> 'v) list \<Rightarrow> 'k \<Rightarrow> 'v \<Rightarrow> ('k \<times> 'v) list" where
  "dict_setitem [] k v = [(k, v)]"
| "dict_setitem ((k', v') # d) k v =
     (if k' = k then (k', v) # d else (k', v') # dict_setitem d k v)"

fun dict_of_pairs :: "('k \<times> 'v) list \<Rightarrow> ('k \<times> 'v) list \<Rightarrow> ('k \<times> 'v) list" where
  "dict_of_pairs d [] = d"
| "dict_of_pairs d ((k, v) # pairs) = dict_of_pairs (dict_setitem d k v) pairs"

text \<open>Modelled from the spec: \<^verbatim>\<open>json.loads\<close> on a whole document, which skips whitespace
  before the value and accepts nothing but whitespace after it.\<close>

definition json_loads :: "pystr \<Rightarrow> (pystr \<times> json) list option" where
  "json_loads s =
     (case skip_ws s of
        [] \<Rightarrow> None
      | c # t1 \<Rightarrow>
          if c \<noteq> 123 then None
          else
            (case parse_object t1 of
               None \<Rightarrow> None
             | Some (pairs, t2) \<Rightarrow>
                 if skip_ws t2 = [] then Some (dict_of_pairs [] pairs) else None))"

section \<open>Facts about the built-ins\<close>


lemma py_split_hd: "\<exists>ps. py_split p sep = takeWhile (\<lambda>c. c \<noteq> sep) p # ps"
  by (induction p) (auto split: list.splits)

lemma getitem0_py_split: "getitem0 (py_split p sep) = Inr (takeWhile (\<lambda>c. c \<noteq> sep) p)"
  using py_split_hd [of p sep] by (auto simp: getitem0_def)

lemma find_at_in:
  "py_in sub s \<Longrightarrow> int i \<le> find_at sub s i \<and> find_at sub s i \<le> int i + int (length s)"
proof (induction s arbitrary: i)
  case Nil
  then show ?case by simp
next
  case (Cons a s)
  show ?case
  proof (cases "prefix sub (a # s)")
    case True
    then show ?thesis by simp
  next
    case False
    with Cons.prems have "py_in sub s" by simp
    from Cons.IH [OF this, of "Suc i"] False show ?thesis by simp
  qed
qed

lemma find_at_single_lt:
  "find_at [c] s i \<noteq> - 1 \<Longrightarrow> int i \<le> find_at [c] s i \<and> find_at [c] s i < int i + int (length s)"
proof (induction s arbitrary: i)
  case Nil
  then show ?case by simp
next
  case (Cons a s)
  show ?case
  proof (cases "a = c")
    case True
    then show ?thesis by simp
  next
    case False
    with Cons.prems have "find_at [c] s (Suc i) \<noteq> - 1" by simp
    from Cons.IH [OF this] False show ?thesis by simp
  qed
qed

lemma py_slice_nonempty:
  assumes "0 \<le> a" "a \<le> e" "e < int (length s)"
  shows "py_slice s a (e + 1) \<noteq> []"
proof -
  have lo: "clamp_index (int (length s)) a = nat a" using assms by (simp add: clamp_index_def)
  have hi: "clamp_index (int (length s)) (e + 1) = nat (e + 1)"
    using assms by (simp add: clamp_index_def)
  have "nat a < length s" "0 < nat (e + 1) - nat a" using assms by linarith+
  then have "0 < length (take (nat (e + 1) - nat a) (drop (nat a) s))" by simp
  then show ?thesis unfolding py_slice_def Let_def lo hi by fastforce
qed

section \<open>Facts about the extractors\<close>

text \<open>The task extractor never raises: \<^verbatim>\<open>split\<close> returns at least one piece.\<close>

lemma extract_task_total: "\<exists>t. extract_task self p = Inr t"
  by (simp add: extract_task_def getitem0_py_split split: option.splits)




lemma extract_role_loop_nonempty: "extract_role_loop items p \<noteq> []"
  by (induction items p rule: extract_role_loop.induct) simp_all


lemma extract_requirements_nonempty: "extract_requirements self p \<noteq> []"
  by (simp add: extract_requirements_def Let_def)

lemma extract_format_init:
  "extract_format init p \<in> {ascii ''list'', ascii ''table'', ascii ''paragraph'',
      ascii ''bullet_points'', ascii ''code'', ascii ''report''}"
  unfolding extract_format_def init_def by simp

lemma extract_tone_init:
  "extract_tone init p \<in> {ascii ''professional'', ascii ''friendly'', ascii ''formal'',
      ascii ''humorous'', ascii ''concise'', ascii ''detailed''}"
  unfolding extract_tone_def init_def by simp

lemma classify_prompt_type_enum:
  "classify_prompt_type self p \<in> {ascii ''creative'', ascii ''analytical'',
      ascii ''conversational'', ascii ''instructional''}"
  unfolding classify_prompt_type_def by simp

lemma generate_examples_length: "length (generate_examples self t) = 1"
  by (simp add: generate_examples_def dict_get_def examples_map_def)

lemma generate_constraints_length: "length (generate_constraints self t) = 2"
  by (simp add: generate_constraints_def dict_get_def constraints_map_def)

lemma context_step_nonempty:
  assumes "py_in indicator prompt"
    and "py_find prompt [period] (py_find prompt indicator 0) \<noteq> - 1"
  shows "py_slice prompt (py_find prompt indicator 0)
           (py_find prompt [period] (py_find prompt indicator 0) + 1) \<noteq> []"
proof -
  let ?start = "py_find prompt indicator 0"
  let ?n = "int (length prompt)"
  have start: "?start = find_at indicator prompt 0" by (simp add: py_find_def)
  have rng: "0 \<le> ?start" "?start \<le> ?n"
    using find_at_in [OF assms(1), of 0] start by simp_all
  then have e: "py_find prompt [period] ?start =
        find_at [period] (drop (nat ?start) prompt) (nat ?start)"
    by (simp add: py_find_def Let_def)
  then have ne: "find_at [period] (drop (nat ?start) prompt) (nat ?start) \<noteq> - 1"
    using assms(2) by simp
  from find_at_single_lt [OF ne] e rng
  have "?start \<le> py_find prompt [period] ?start" "py_find prompt [period] ?start < ?n"
    by auto
  with rng show ?thesis by (intro py_slice_nonempty) auto
qed

lemma extract_context_loop_first:
  "i < length indicators
   \<Longrightarrow> py_in (indicators ! i) prompt
   \<Longrightarrow> py_find prompt [period] (py_find prompt (indicators ! i) 0) \<noteq> - 1
   \<Longrightarrow> \<forall>j < i. \<not> (py_in (indicators ! j) prompt
                    \<and> py_find prompt [period] (py_find prompt (indicators ! j) 0) \<noteq> - 1)
   \<Longrightarrow> extract_context_loop indicators prompt =
         py_slice prompt (py_find prompt (indicators ! i) 0)
           (py_find prompt [period] (py_find prompt (indicators ! i) 0) + 1)"
proof (induction indicators arbitrary: i)
  case Nil
  then show ?case by simp
next
  case (Cons indicator indicators)
  show ?case
  proof (cases i)
    case 0
    with Cons.prems show ?thesis by (simp add: Let_def)
  next
    case (Suc k)
    have skip: "\<not> (py_in indicator prompt
                 \<and> py_find prompt [period] (py_find prompt indicator 0) \<noteq> - 1)"
      using Cons.prems(4) [rule_format, of 0] Suc by simp
    have k: "k < length indicators" "py_in (indicators ! k) prompt"
      "py_find prompt [period] (py_find prompt (indicators ! k) 0) \<noteq> - 1"
      using Cons.prems Suc by simp_all
    have before: "\<forall>j < k. \<not> (py_in (indicators ! j) prompt
                    \<and> py_find prompt [period] (py_find prompt (indicators ! j) 0) \<noteq> - 1)"
    proof (intro allI impI)
      fix j assume "j < k"
      then have "Suc j < i" using Suc by simp
      from Cons.prems(4) [rule_format, OF this]
      show "\<not> (py_in (indicators ! j) prompt
                    \<and> py_find prompt [period] (py_find prompt (indicators ! j) 0) \<noteq> - 1)"
        by simp
    qed
    have "extract_context_loop (indicator # indicators) prompt
            = extract_context_loop indicators prompt"
      using skip by (auto simp: Let_def)
    with Cons.IH [OF k before] Suc show ?thesis by simp
  qed
qed

text \<open>The record \<^verbatim>\<open>optimize_prompt\<close> builds, field by field, and the totality of the call.\<close>

lemma optimized_prompt_Inr:
  "\<exists>t. optimized_prompt self p = Inr
     \<lparr> role = extract_role self p, task = t,
       context = (if extract_context self p \<noteq> [] then extract_context self p
                  else [29992, 25143, 38656, 35201, 19987, 19994, 30340, 24110, 21161]),
       requirements = extract_requirements self p,
       format = extract_format self p,
       examples = generate_examples self (classify_prompt_type self p),
       constraints = generate_constraints self (classify_prompt_type self p),
       tone = extract_tone self p,
       prompt_type = classify_prompt_type self p \<rparr> \<and> extract_task self p = Inr t"
  using extract_task_total [of self p]
  by (auto simp: optimized_prompt_def analyze_natural_prompt_def)

lemma optimize_prompt_total: "\<exists>out. optimize_prompt self p = Inr out"
  using optimized_prompt_Inr [of self p] by (auto simp: optimize_prompt_def)

text \<open>A call leaves the instance as it found it, and returns the value computed above.\<close>

lemma analyze_natural_prompt_call_eq:
  "analyze_natural_prompt_call prompt self = (analyze_natural_prompt self prompt, self)"
  by (simp add: analyze_natural_prompt_call_def analyze_natural_prompt_def
        extract_role_call_def extract_task_call_def extract_context_call_def
        extract_requirements_call_def extract_format_call_def extract_tone_call_def
        classify_prompt_type_call_def Let_def split: sum.splits)

lemma optimize_prompt_call_eq:
  "optimize_prompt_call prompt self = (optimize_prompt self prompt, self)"
  by (simp add: optimize_prompt_call_def analyze_natural_prompt_call_eq optimize_prompt_def
        optimized_prompt_def generate_examples_call_def generate_constraints_call_def
        Let_def split: sum.splits)

lemma interactive_loop_nth:
  "i < length (fst (interactive_loop lower inputs optimizer))
   \<Longrightarrow> i < length inputs
       \<and> fst (interactive_loop lower inputs optimizer) ! i
           = fst (optimize_prompt_call (inputs ! i) optimizer)"
proof (induction inputs arbitrary: i optimizer)
  case Nil
  then show ?case by simp
next
  case (Cons user_input inputs)
  from Cons.prems have nq: "lower user_input \<noteq> ascii ''quit''"
    by (auto split: if_splits)
  have step: "interactive_loop lower (user_input # inputs) optimizer =
      (fst (optimize_prompt_call user_input optimizer)
         # fst (interactive_loop lower inputs optimizer),
       snd (interactive_loop lower inputs optimizer))"
    using nq by (simp add: optimize_prompt_call_eq split_def Let_def)
  show ?case
  proof (cases i)
    case 0
    then show ?thesis unfolding step by simp
  next
    case (Suc k)
    with Cons.prems have "k < length (fst (interactive_loop lower inputs optimizer))"
      unfolding step by simp
    from Cons.IH [OF this] Suc show ?thesis unfolding step by simp
  qed
qed

section \<open>The prompt of \<^verbatim>\<open>main\<close>\<close>

lemma demo_search1: "re_search [24110, 25105] main_natural_prompt =
   Some ([20889, 19968, 20010, 20851, 20110, 20154, 24037, 26234, 33021,
           21457, 23637, 30340, 19987, 19994, 20998, 26512, 25253, 21578], [35201, 27714, 35814, 32454, 20998, 26512, 29616, 29366, 21644, 36235,
    21183])"
  by (simp add: main_natural_prompt_def comma_def period_def newline_def)

lemma demo_search2: "re_search [35831] main_natural_prompt =
   Some ([24110, 25105, 20889, 19968, 20010, 20851, 20110, 20154, 24037, 26234, 33021,
           21457, 23637, 30340, 19987, 19994, 20998, 26512, 25253, 21578], [35201, 27714, 35814, 32454, 20998, 26512, 29616, 29366, 21644, 36235,
    21183])"
  by (simp add: main_natural_prompt_def comma_def period_def newline_def)

lemma demo_task: "extract_task init main_natural_prompt = Inr [20889, 19968, 20010, 20851, 20110, 20154, 24037, 26234, 33021,
           21457, 23637, 30340, 19987, 19994, 20998, 26512, 25253, 21578]"
  by (simp add: extract_task_def init_def demo_search1 group1_def py_strip_def py_isspace_def)

lemma demo_type: "classify_prompt_type init main_natural_prompt = ascii ''analytical''"
  by (simp add: classify_prompt_type_def any_in_def creative_keywords_def analytical_keywords_def main_natural_prompt_def)

lemma demo_tone: "extract_tone init main_natural_prompt = ascii ''professional''"
  by (simp add: extract_tone_def init_def main_natural_prompt_def)

lemma demo_format: "extract_format init main_natural_prompt = ascii ''report''"
  by (simp add: extract_format_def init_def main_natural_prompt_def)

section \<open>Decoding what the encoder writes\<close>

lemma hex_value_hex_digit: "d < 16 \<Longrightarrow> hex_value (hex_digit d) = Some d"
  by (auto simp: hex_value_def hex_digit_def)

lemma hex_value_0: "hex_value 48 = Some 0"
  by (simp add: hex_value_def)

lemma hex4_control: "c < 32 \<Longrightarrow> hex4 48 48 (hex_digit (c div 16)) (hex_digit (c mod 16)) = Some c"
proof -
  assume "c < 32"
  then have "c div 16 < 16" "c mod 16 < 16" by simp_all
  then show ?thesis
    by (simp add: hex4_def hex_value_0 hex_value_hex_digit)
qed

lemma scanstring_escape_char: "scanstring (escape_char c @ t) = consume c (scanstring t)"
proof -
  consider "c = 34" | "c = 92" | "c = 10" | "c = 13" | "c = 9" | "c = 12" | "c = 8"
    | "c < 32" "c \<notin> {34, 92, 10, 13, 9, 12, 8}" | "32 \<le> c" "c \<noteq> 34" "c \<noteq> 92"
    by fastforce
  then show ?thesis
  proof cases
    case 8
    then have e: "escape_char c = [92, 117, 48, 48, hex_digit (c div 16), hex_digit (c mod 16)]"
      by (simp add: escape_char_def)
    show ?thesis using 8(1) by (simp add: e hex4_control)
  next
    case 9
    then show ?thesis by (simp add: escape_char_def)
  qed (simp_all add: escape_char_def unescape_def)
qed

lemma scanstring_encoded:
  "scanstring (concat (map escape_char s) @ 34 # rest) = Some (s, rest)"
  by (induction s) (simp_all add: scanstring_escape_char consume_def)

lemma skip_ws_simps [simp]:
  "skip_ws [] = []"
  "skip_ws (10 # t) = skip_ws t"
  "skip_ws (32 # t) = skip_ws t"
  "skip_ws (34 # t) = 34 # t"
  "skip_ws (44 # t) = 44 # t"
  "skip_ws (58 # t) = 58 # t"
  "skip_ws (91 # t) = 91 # t"
  "skip_ws (93 # t) = 93 # t"
  "skip_ws (123 # t) = 123 # t"
  "skip_ws (125 # t) = 125 # t"
  by (simp_all add: skip_ws_def is_ws_def)

lemma parse_elems_join:
  "xs \<noteq> [] \<Longrightarrow>
   parse_elems (join [44, 10, 32, 32, 32, 32] (map encode_basestring xs) @ 10 # 32 # 32 # 93 # rest)
     = Some (xs, rest)"
proof (induction xs rule: induct_list012)
  case 1
  then show ?case by simp
next
  case (2 x)
  show ?case
    by (simp add: encode_basestring_def scanstring_encoded)
next
  case (3 x y zs)
  then have IH: "parse_elems (join [44, 10, 32, 32, 32, 32] (map encode_basestring (y # zs))
                    @ 10 # 32 # 32 # 93 # rest) = Some (y # zs, rest)"
    by simp
  let ?T = "join [44, 10, 32, 32, 32, 32] (map encode_basestring (y # zs)) @ 10 # 32 # 32 # 93 # rest"
  obtain w where w: "?T = 34 # w"
    by (cases zs) (simp_all add: encode_basestring_def)
  have skip: "skip_ws ?T = ?T"
    unfolding w by simp
  have "parse_elems (join [44, 10, 32, 32, 32, 32] (map encode_basestring (x # y # zs))
          @ 10 # 32 # 32 # 93 # rest)
      = consume x (parse_elems (skip_ws ?T))"
    by (simp add: encode_basestring_def scanstring_encoded del: join.simps(3))
       (simp add: scanstring_encoded)
  also have "\<dots> = consume x (parse_elems ?T)"
    by (simp only: skip)
  also have "\<dots> = Some (x # y # zs, rest)"
    by (simp only: IH) (simp add: consume_def)
  finally show ?case .
qed

lemma skip_ws_dumps_value: "skip_ws (dumps_value v @ t) = dumps_value v @ t"
proof (cases v)
  case (JStr s)
  then show ?thesis by (simp add: encode_basestring_def)
next
  case (JList xs)
  then show ?thesis by (simp add: dumps_list_def ascii_def)
qed

lemma parse_value_dumps: "parse_value (dumps_value v @ rest) = Some (v, rest)"
proof (cases v)
  case (JStr s)
  then show ?thesis
    by (simp add: parse_value_def encode_basestring_def scanstring_encoded)
next
  case (JList xs)
  show ?thesis
  proof (cases "xs = []")
    case True
    with JList show ?thesis
      by (simp add: parse_value_def parse_array_def dumps_list_def ascii_def)
  next
    case False
    let ?T = "join [44, 10, 32, 32, 32, 32] (map encode_basestring xs) @ 10 # 32 # 32 # 93 # rest"
    obtain x ys where xs: "xs = x # ys" using False by (cases xs) auto
    obtain w where w: "?T = 34 # w"
      unfolding xs by (cases ys) (simp_all add: encode_basestring_def)
    have d: "dumps_value v @ rest = 91 # 10 # 32 # 32 # 32 # 32 # ?T"
      using JList False by (simp add: dumps_list_def ascii_def)
    have "parse_array (10 # 32 # 32 # 32 # 32 # ?T) = parse_elems ?T"
      unfolding parse_array_def by (simp add: w)
    then show ?thesis
      unfolding d using parse_elems_join [OF False, of rest] JList
      by (simp add: parse_value_def)
  qed
qed

lemma parse_members_join:
  "d \<noteq> [] \<Longrightarrow>
   parse_members (join [44, 10, 32, 32] (map dumps_item d) @ 10 # 125 # rest) = Some (d, rest)"
proof (induction d rule: induct_list012)
  case 1
  then show ?case by simp
next
  case (2 kv)
  obtain k v where kv: "kv = (k, v)" by (cases kv)
  have "dumps_item kv @ 10 # 125 # rest
      = 34 # concat (map escape_char k) @ 34 # 58 # 32 # dumps_value v @ 10 # 125 # rest"
    by (simp add: kv dumps_item_def encode_basestring_def ascii_def)
  then show ?case
    by (simp add: scanstring_encoded skip_ws_dumps_value parse_value_dumps kv)
next
  case (3 kv kv' d)
  obtain k v where kv: "kv = (k, v)" by (cases kv)
  let ?T = "join [44, 10, 32, 32] (map dumps_item (kv' # d)) @ 10 # 125 # rest"
  have IH: "parse_members ?T = Some (kv' # d, rest)" using 3 by simp
  obtain w where w: "?T = 34 # w"
    by (cases d) (simp_all add: dumps_item_def encode_basestring_def)
  have skip: "skip_ws ?T = ?T" unfolding w by simp
  have "join [44, 10, 32, 32] (map dumps_item (kv # kv' # d)) @ 10 # 125 # rest
      = 34 # concat (map escape_char k) @ 34 # 58 # 32 # dumps_value v @ 44 # 10 # 32 # 32 # ?T"
    by (simp add: kv dumps_item_def encode_basestring_def ascii_def)
  then have "parse_members (join [44, 10, 32, 32] (map dumps_item (kv # kv' # d)) @ 10 # 125 # rest)
      = consume (k, v) (parse_members (skip_ws ?T))"
    by (simp add: scanstring_encoded skip_ws_dumps_value parse_value_dumps del: join.simps list.map)
  also have "\<dots> = Some (kv # kv' # d, rest)"
    by (simp only: skip IH) (simp add: consume_def kv)
  finally show ?case .
qed

lemma dict_setitem_fresh: "k \<notin> fst ` set d \<Longrightarrow> dict_setitem d k v = d @ [(k, v)]"
  by (induction d) auto

lemma dict_of_pairs_distinct:
  "distinct (map fst (d @ pairs)) \<Longrightarrow> dict_of_pairs d pairs = d @ pairs"
proof (induction pairs arbitrary: d)
  case Nil
  then show ?case by simp
next
  case (Cons kv pairs)
  obtain k v where kv: "kv = (k, v)" by (cases kv)
  have fresh: "k \<notin> fst ` set d" using Cons.prems kv by auto
  have "distinct (map fst ((d @ [(k, v)]) @ pairs))" using Cons.prems kv by simp
  from Cons.IH [OF this] show ?case
    by (simp add: kv dict_setitem_fresh [OF fresh])
qed

lemma json_loads_dumps:
  "distinct (map fst d) \<Longrightarrow> json_loads (json_dumps d) = Some d"
proof (cases "d = []")
  case True
  then show ?thesis
    by (simp add: json_loads_def json_dumps_def parse_object_def ascii_def)
next
  case False
  assume dist: "distinct (map fst d)"
  let ?T = "join [44, 10, 32, 32] (map dumps_item d) @ 10 # 125 # []"
  obtain kv ys where d: "d = kv # ys" using False by (cases d) auto
  obtain w where w: "?T = 34 # w"
    unfolding d by (cases ys) (simp_all add: dumps_item_def encode_basestring_def)
  have j: "json_dumps d = 123 # 10 # 32 # 32 # ?T"
    using False by (simp add: json_dumps_def ascii_def)
  have "parse_object (10 # 32 # 32 # ?T) = parse_members ?T"
    unfolding parse_object_def by (simp add: w)
  then have "parse_object (10 # 32 # 32 # ?T) = Some (d, [])"
    using parse_members_join [OF False, of "[]"] by simp
  then show ?thesis
    unfolding j using dict_of_pairs_distinct [of "[]" d] dist
    by (simp add: json_loads_def)
qed

lemma asdict_distinct: "distinct (map fst (asdict r))"
  by (simp add: asdict_def ascii_def)

section \<open>The claims\<close>

subsection \<open>C1: populated fields\<close>

text \<open>
  Claim C1, as amended. For every input string the optimizer of \<^verbatim>\<open>__init__\<close> builds a
  \<^verbatim>\<open>PromptStructure\<close> (the call does not raise) whose role, format, tone and prompt type
  are non-empty strings and whose requirements, examples and constraints are non-empty
  lists. Nothing is said of the task.
\<close>

theorem optimize_fields_populated:
  "\<exists>r. optimized_prompt init p = Inr r
     \<and> role r \<noteq> [] \<and> format r \<noteq> [] \<and> tone r \<noteq> [] \<and> prompt_type r \<noteq> []
     \<and> requirements r \<noteq> [] \<and> examples r \<noteq> [] \<and> constraints r \<noteq> []"
proof -
  obtain t where r: "optimized_prompt init p = Inr
     \<lparr> role = extract_role init p, task = t,
       context = (if extract_context init p \<noteq> [] then extract_context init p
                  else [29992, 25143, 38656, 35201, 19987, 19994, 30340, 24110, 21161]),
       requirements = extract_requirements init p,
       format = extract_format init p,
       examples = generate_examples init (classify_prompt_type init p),
       constraints = generate_constraints init (classify_prompt_type init p),
       tone = extract_tone init p,
       prompt_type = classify_prompt_type init p \<rparr>"
    using optimized_prompt_Inr [of init p] by blast
  have "extract_role init p \<noteq> []"
    by (simp add: extract_role_def extract_role_loop_nonempty)
  moreover have "extract_format init p \<noteq> []"
    using extract_format_init [of p] by (auto simp: ascii_def)
  moreover have "extract_tone init p \<noteq> []"
    using extract_tone_init [of p] by (auto simp: ascii_def)
  moreover have "classify_prompt_type init p \<noteq> []"
    using classify_prompt_type_enum [of init p] by (auto simp: ascii_def)
  moreover have "extract_requirements init p \<noteq> []"
    by (rule extract_requirements_nonempty)
  moreover have "generate_examples init (classify_prompt_type init p) \<noteq> []"
    using generate_examples_length [of init "classify_prompt_type init p"] by auto
  moreover have "generate_constraints init (classify_prompt_type init p) \<noteq> []"
    using generate_constraints_length [of init "classify_prompt_type init p"] by auto
  ultimately show ?thesis using r by simp
qed

text \<open>
  Claim C1 as stated also asks for a non-empty task. On the empty input no pattern matches
  and there is no full stop, so the task is the input itself: the empty string.
\<close>

theorem empty_input_task_empty:
  "optimized_prompt init [] = Inr
     \<lparr> role = [20320, 26159, 19968, 20301, 65, 73, 21161, 25163],
       task = [],
       context = [29992, 25143, 38656, 35201, 19987, 19994, 30340, 24110, 21161],
       requirements = [[29983, 25104, 39640, 36136, 37327, 30340, 22238, 31572]],
       format = ascii ''paragraph'',
       examples = [[31034, 20363, 65306, 29992, 25143, 21451, 22909, 30340, 23545, 35805,
                    26041, 24335, 22238, 31572]],
       constraints = [[35821, 35328, 33258, 28982, 27969, 30021],
                      [22238, 31572, 31616, 27905, 26126, 20102]],
       tone = ascii ''professional'',
       prompt_type = ascii ''conversational'' \<rparr>"
  by (simp add: optimized_prompt_def analyze_natural_prompt_def extract_role_def
        extract_task_def extract_context_def context_indicators_def
        extract_requirements_def requirement_patterns_def extract_format_def
        extract_tone_def classify_prompt_type_def any_in_def creative_keywords_def
        analytical_keywords_def instructional_keywords_def init_def
        generate_examples_def generate_constraints_def dict_get_def
        examples_map_def constraints_map_def Let_def ascii_def)

subsection \<open>C2: context without a following full stop\<close>

text \<open>
  Claim C2, as amended. The context extractor returns the empty string exactly when every
  indicator that occurs in the input has no full stop at or after its first occurrence.
  Otherwise it returns, for the first indicator in table order that occurs and has a full
  stop at or after its first occurrence, the text from that occurrence to that full stop
  inclusive: an indicator without a following full stop does not end the search, and among
  the indicators that have one the table decides, not the position in the text.
\<close>

theorem extract_context_table_order:
  "(extract_context self prompt = [] \<longleftrightarrow>
      (\<forall>indicator \<in> set context_indicators. py_in indicator prompt \<longrightarrow>
         py_find prompt [period] (py_find prompt indicator 0) = - 1))
   \<and> (\<forall>i. i < length context_indicators
          \<and> py_in (context_indicators ! i) prompt
          \<and> py_find prompt [period] (py_find prompt (context_indicators ! i) 0) \<noteq> - 1
          \<and> (\<forall>j < i. \<not> (py_in (context_indicators ! j) prompt
                 \<and> py_find prompt [period] (py_find prompt (context_indicators ! j) 0) \<noteq> - 1))
        \<longrightarrow> extract_context self prompt =
              py_slice prompt (py_find prompt (context_indicators ! i) 0)
                (py_find prompt [period] (py_find prompt (context_indicators ! i) 0) + 1))"
proof (intro conjI allI impI)
  have "extract_context_loop indicators prompt = [] \<longleftrightarrow>
     (\<forall>indicator \<in> set indicators. py_in indicator prompt \<longrightarrow>
        py_find prompt [period] (py_find prompt indicator 0) = - 1)" for indicators
  proof (induction indicators)
    case Nil
    then show ?case by simp
  next
    case (Cons indicator indicators)
    then show ?case
      using context_step_nonempty [of indicator prompt]
      by (auto simp: Let_def)
  qed
  then show "extract_context self prompt = [] \<longleftrightarrow>
      (\<forall>indicator \<in> set context_indicators. py_in indicator prompt \<longrightarrow>
         py_find prompt [period] (py_find prompt indicator 0) = - 1)"
    by (simp add: extract_context_def)
next
  fix i
  assume h: "i < length context_indicators
          \<and> py_in (context_indicators ! i) prompt
          \<and> py_find prompt [period] (py_find prompt (context_indicators ! i) 0) \<noteq> - 1
          \<and> (\<forall>j < i. \<not> (py_in (context_indicators ! j) prompt
                 \<and> py_find prompt [period] (py_find prompt (context_indicators ! j) 0) \<noteq> - 1))"
  then show "extract_context self prompt =
              py_slice prompt (py_find prompt (context_indicators ! i) 0)
                (py_find prompt [period] (py_find prompt (context_indicators ! i) 0) + 1)"
    using extract_context_loop_first [of i context_indicators prompt]
    by (simp add: extract_context_def)
qed

text \<open>
  The amended claim at three inputs. In U+60C5 U+51B5 U+3002 U+80CC U+666F U+3002 both
  indicators have a full stop and the first of the table (U+80CC U+666F) is returned though
  it comes later in the text. In U+60C5 U+51B5 U+3002 U+80CC U+666F the first of the table
  has no full stop and the second is returned. In U+80CC U+666F \<^verbatim>\<open>a\<close> the only indicator
  has no full stop and the context is empty.
\<close>

theorem extract_context_table_order_witness:
  "extract_context init [24773, 20917, 12290, 32972, 26223, 12290] = [32972, 26223, 12290]
   \<and> extract_context init [24773, 20917, 12290, 32972, 26223] = [24773, 20917, 12290]
   \<and> extract_context init [32972, 26223, 97] = []"
proof -
  let ?A = "[24773, 20917, 12290, 32972, 26223, 12290]"
  let ?B = "[24773, 20917, 12290, 32972, 26223]"
  let ?C = "[32972, 26223, 97]"
  have hA: "0 < length context_indicators
          \<and> py_in (context_indicators ! 0) ?A
          \<and> py_find ?A [period] (py_find ?A (context_indicators ! 0) 0) \<noteq> - 1
          \<and> (\<forall>j < 0. \<not> (py_in (context_indicators ! j) ?A
                 \<and> py_find ?A [period] (py_find ?A (context_indicators ! j) 0) \<noteq> - 1))"
    by (simp add: context_indicators_def py_find_def period_def)
  have "extract_context init ?A =
      py_slice ?A (py_find ?A (context_indicators ! 0) 0)
        (py_find ?A [period] (py_find ?A (context_indicators ! 0) 0) + 1)"
    using extract_context_table_order [of init ?A, THEN conjunct2, THEN spec, THEN mp, OF hA] .
  then have a: "extract_context init ?A = [32972, 26223, 12290]"
    by (simp add: context_indicators_def py_find_def py_slice_def clamp_index_def period_def)
  have b0: "\<not> (py_in (context_indicators ! 0) ?B
                 \<and> py_find ?B [period] (py_find ?B (context_indicators ! 0) 0) \<noteq> - 1)"
    by (simp add: context_indicators_def py_find_def period_def)
  have b1: "py_in (context_indicators ! 1) ?B
          \<and> py_find ?B [period] (py_find ?B (context_indicators ! 1) 0) \<noteq> - 1"
    by (simp add: context_indicators_def py_find_def period_def)
  have hB: "1 < length context_indicators
          \<and> py_in (context_indicators ! 1) ?B
          \<and> py_find ?B [period] (py_find ?B (context_indicators ! 1) 0) \<noteq> - 1
          \<and> (\<forall>j < 1. \<not> (py_in (context_indicators ! j) ?B
                 \<and> py_find ?B [period] (py_find ?B (context_indicators ! j) 0) \<noteq> - 1))"
    using b0 b1 by (simp add: context_indicators_def)
  have "extract_context init ?B =
      py_slice ?B (py_find ?B (context_indicators ! 1) 0)
        (py_find ?B [period] (py_find ?B (context_indicators ! 1) 0) + 1)"
    using extract_context_table_order [of init ?B, THEN conjunct2, THEN spec, THEN mp, OF hB] .
  then have b: "extract_context init ?B = [24773, 20917, 12290]"
    by (simp add: context_indicators_def py_find_def py_slice_def clamp_index_def period_def)
  have "\<forall>indicator \<in> set context_indicators. py_in indicator ?C \<longrightarrow>
        py_find ?C [period] (py_find ?C indicator 0) = - 1"
    by (simp add: context_indicators_def py_find_def period_def)
  then have c: "extract_context init ?C = []"
    using extract_context_table_order [of init ?C, THEN conjunct1] by blast
  from a b c show ?thesis by simp
qed

text \<open>
  Claim C2 as stated fails at the input U+60C5 U+51B5 U+3002 U+80CC U+666F: the first
  indicator of the table (U+80CC U+666F) occurs and no full stop follows it, yet the
  result is not empty; it is the second indicator with its full stop.
\<close>

theorem context_later_indicator_counterexample:
  "py_in (context_indicators ! 0) [24773, 20917, 12290, 32972, 26223]
   \<and> py_find [24773, 20917, 12290, 32972, 26223] [period]
        (py_find [24773, 20917, 12290, 32972, 26223] (context_indicators ! 0) 0) = - 1
   \<and> extract_context init [24773, 20917, 12290, 32972, 26223] = [24773, 20917, 12290]"
  by (simp add: extract_context_def context_indicators_def py_find_def py_slice_def
        clamp_index_def period_def)

subsection \<open>C3: the prompt of \<^verbatim>\<open>main\<close>\<close>

text \<open>
  Claim C3, as amended. On the prompt of \<^verbatim>\<open>main\<close> the analysis has prompt type
  \<^verbatim>\<open>analytical\<close>, tone \<^verbatim>\<open>professional\<close> and format \<^verbatim>\<open>report\<close>, and the task is group 1 of
  the first pattern of the table (lead-in U+5E2E U+6211), which matches: the text between
  that lead-in and the first fullwidth comma.
\<close>

theorem demo_analysis:
  "analyze_natural_prompt init main_natural_prompt = Inr
     \<lparr> analysis_role = [20320, 26159, 19968, 20301, 65, 73, 21161, 25163],
       analysis_task = [20889, 19968, 20010, 20851, 20110, 20154, 24037, 26234, 33021,
                        21457, 23637, 30340, 19987, 19994, 20998, 26512, 25253, 21578],
       analysis_context = [],
       analysis_requirements = [[29983, 25104, 39640, 36136, 37327, 30340, 22238, 31572]],
       analysis_format = ascii ''report'',
       analysis_tone = ascii ''professional'',
       analysis_prompt_type = ascii ''analytical'' \<rparr>
   \<and> re_search (task_patterns init ! 0) main_natural_prompt =
       Some ([20889, 19968, 20010, 20851, 20110, 20154, 24037, 26234, 33021,
              21457, 23637, 30340, 19987, 19994, 20998, 26512, 25253, 21578],
             [35201, 27714, 35814, 32454, 20998, 26512, 29616, 29366, 21644, 36235, 21183])"
proof -
  have "extract_role init main_natural_prompt = [20320, 26159, 19968, 20301, 65, 73, 21161, 25163]"
    by (simp add: extract_role_def init_def main_natural_prompt_def)
  moreover have "extract_context init main_natural_prompt = []"
    by (simp add: extract_context_def context_indicators_def main_natural_prompt_def)
  moreover have "extract_requirements init main_natural_prompt =
      [[29983, 25104, 39640, 36136, 37327, 30340, 22238, 31572]]"
    by (simp add: extract_requirements_def requirement_patterns_def main_natural_prompt_def)
  moreover have "re_search (task_patterns init ! 0) main_natural_prompt = re_search [24110, 25105] main_natural_prompt"
    by (simp add: init_def)
  ultimately show ?thesis
    by (simp add: analyze_natural_prompt_def demo_task demo_type demo_tone demo_format demo_search1)
qed

text \<open>
  Claim C3 as stated has the task extracted by the second pattern (lead-in U+8BF7). That
  pattern matches too, but its group, which starts with U+5E2E U+6211, is not the task.
\<close>

theorem demo_task_not_via_please:
  "re_search (task_patterns init ! 1) main_natural_prompt =
       Some ([24110, 25105, 20889, 19968, 20010, 20851, 20110, 20154, 24037, 26234, 33021,
              21457, 23637, 30340, 19987, 19994, 20998, 26512, 25253, 21578],
             [35201, 27714, 35814, 32454, 20998, 26512, 29616, 29366, 21644, 36235, 21183])
   \<and> map_sum id analysis_task (analyze_natural_prompt init main_natural_prompt) \<noteq>
       Inr (py_strip (group1
         ([24110, 25105, 20889, 19968, 20010, 20851, 20110, 20154, 24037, 26234, 33021,
           21457, 23637, 30340, 19987, 19994, 20998, 26512, 25253, 21578],
          [35201, 27714, 35814, 32454, 20998, 26512, 29616, 29366, 21644, 36235, 21183])))"
proof -
  have "re_search (task_patterns init ! 1) main_natural_prompt = re_search [35831] main_natural_prompt"
    by (simp add: init_def)
  then show ?thesis
    by (simp add: demo_search2 analyze_natural_prompt_def demo_task group1_def
          py_strip_def py_isspace_def)
qed

subsection \<open>C4: order of the task patterns and the fallback\<close>



subsection \<open>C5: all requirement matches, in pattern order\<close>


subsection \<open>C6: priority of the prompt types\<close>



subsection \<open>C7: enumerated fields\<close>

text \<open>
  Claim C7. For every input the format, the tone and the prompt type of the record built
  by the optimizer of \<^verbatim>\<open>__init__\<close> are members of their enumerations.
\<close>

theorem enumerations:
  "\<exists>r. optimized_prompt init p = Inr r
     \<and> format r \<in> {ascii ''list'', ascii ''table'', ascii ''paragraph'',
                    ascii ''bullet_points'', ascii ''code'', ascii ''report''}
     \<and> tone r \<in> {ascii ''professional'', ascii ''friendly'', ascii ''formal'',
                  ascii ''humorous'', ascii ''concise'', ascii ''detailed''}
     \<and> prompt_type r \<in> {ascii ''creative'', ascii ''analytical'',
                         ascii ''conversational'', ascii ''instructional''}"
proof -
  obtain t where "optimized_prompt init p = Inr
     \<lparr> role = extract_role init p, task = t,
       context = (if extract_context init p \<noteq> [] then extract_context init p
                  else [29992, 25143, 38656, 35201, 19987, 19994, 30340, 24110, 21161]),
       requirements = extract_requirements init p,
       format = extract_format init p,
       examples = generate_examples init (classify_prompt_type init p),
       constraints = generate_constraints init (classify_prompt_type init p),
       tone = extract_tone init p,
       prompt_type = classify_prompt_type init p \<rparr>"
    using optimized_prompt_Inr [of init p] by blast
  then show ?thesis
    using extract_format_init [of p] extract_tone_init [of p] classify_prompt_type_enum [of init p]
    by simp
qed

subsection \<open>C8: identical input, identical output\<close>

text \<open>
  Claim C8. A second call of \<^verbatim>\<open>optimize_prompt\<close> on the same input, made on the optimizer
  as the first call left it, returns the same serialised output; the call returns a result
  and not an exception, and leaves the optimizer as it found it. In a run of the read
  loop, whatever was read and optimised before, two iterations that read the same line
  print the same output, which is that of \<^verbatim>\<open>optimize_prompt\<close> on that line and the
  optimizer the loop started with; the loop leaves the optimizer unchanged.
\<close>

theorem optimize_deterministic:
  "fst (optimize_prompt_call p (snd (optimize_prompt_call p optimizer)))
     = fst (optimize_prompt_call p optimizer)
   \<and> (\<exists>out. fst (optimize_prompt_call p optimizer) = Inr out)
   \<and> snd (optimize_prompt_call p optimizer) = optimizer
   \<and> (\<forall>i j. i < length (fst (interactive_loop lower inputs optimizer))
          \<and> j < length (fst (interactive_loop lower inputs optimizer))
          \<and> inputs ! i = inputs ! j
        \<longrightarrow> fst (interactive_loop lower inputs optimizer) ! i
              = fst (interactive_loop lower inputs optimizer) ! j
            \<and> fst (interactive_loop lower inputs optimizer) ! i
              = fst (optimize_prompt_call (inputs ! i) optimizer))
   \<and> snd (interactive_loop lower inputs optimizer) = optimizer"
proof (intro conjI allI impI)
  show same: "snd (optimize_prompt_call p optimizer) = optimizer"
    by (simp add: optimize_prompt_call_eq)
  show "fst (optimize_prompt_call p (snd (optimize_prompt_call p optimizer)))
     = fst (optimize_prompt_call p optimizer)"
    by (simp only: same)
  show "\<exists>out. fst (optimize_prompt_call p optimizer) = Inr out"
    using optimize_prompt_total [of optimizer p]
    by (simp add: optimize_prompt_call_eq)
  show "snd (interactive_loop lower inputs optimizer) = optimizer"
    by (induction inputs arbitrary: optimizer)
       (simp_all add: optimize_prompt_call_eq split_def Let_def)
next
  fix i j
  assume h: "i < length (fst (interactive_loop lower inputs optimizer))
          \<and> j < length (fst (interactive_loop lower inputs optimizer))
          \<and> inputs ! i = inputs ! j"
  have i: "fst (interactive_loop lower inputs optimizer) ! i
          = fst (optimize_prompt_call (inputs ! i) optimizer)"
    using interactive_loop_nth [of i lower inputs optimizer] h by simp
  have j: "fst (interactive_loop lower inputs optimizer) ! j
          = fst (optimize_prompt_call (inputs ! j) optimizer)"
    using interactive_loop_nth [of j lower inputs optimizer] h by simp
  show "fst (interactive_loop lower inputs optimizer) ! i
          = fst (interactive_loop lower inputs optimizer) ! j"
    using i j h by simp
  show "fst (interactive_loop lower inputs optimizer) ! i
          = fst (optimize_prompt_call (inputs ! i) optimizer)"
    by (rule i)
qed

text \<open>
  Claim C8 on the three lines \<^verbatim>\<open>a\<close>, \<^verbatim>\<open>b\<close>, \<^verbatim>\<open>a\<close>: the first and the third output agree.
\<close>

theorem optimize_deterministic_witness:
  "(0::nat) < length (fst (interactive_loop (\<lambda>s. s) [[97], [98], [97]] init))
   \<and> (2::nat) < length (fst (interactive_loop (\<lambda>s. s) [[97], [98], [97]] init))
   \<and> fst (interactive_loop (\<lambda>s. s) [[97], [98], [97]] init) ! 0
       = fst (interactive_loop (\<lambda>s. s) [[97], [98], [97]] init) ! 2"
proof -
  have l: "length (fst (interactive_loop (\<lambda>s. s) [[97], [98], [97]] init)) = 3"
    by (simp add: ascii_def split_def Let_def)
  have h: "(0::nat) < length (fst (interactive_loop (\<lambda>s. s) [[97], [98], [97]] init))
       \<and> (2::nat) < length (fst (interactive_loop (\<lambda>s. s) [[97], [98], [97]] init))
       \<and> [[97], [98], [97::nat]] ! 0 = [[97], [98], [97]] ! 2"
    using l by simp
  have "fst (interactive_loop (\<lambda>s. s) [[97], [98], [97]] init) ! 0
          = fst (interactive_loop (\<lambda>s. s) [[97], [98], [97]] init) ! 2"
    using optimize_deterministic [of "[]" init "\<lambda>s. s" "[[97], [98], [97]]",
        THEN conjunct2, THEN conjunct2, THEN conjunct2, THEN conjunct1,
        THEN spec, THEN spec, THEN mp, OF h]
    by (rule conjunct1)
  with l show ?thesis by simp
qed

subsection \<open>C9: round trip of the serialised form\<close>

text \<open>
  Claim C9. For every input, decoding the output of \<^verbatim>\<open>optimize_prompt\<close> gives the nine
  fields in declaration order: the seven of the analysis, the context replaced by its
  default when the analysis has none, and the examples and constraints generated from the
  prompt type of the analysis.
\<close>

theorem serialization_round_trip:
  "\<exists>a out. analyze_natural_prompt self p = Inr a
     \<and> optimize_prompt self p = Inr out
     \<and> json_loads out = Some
          [(ascii ''role'', JStr (analysis_role a)),
           (ascii ''task'', JStr (analysis_task a)),
           (ascii ''context'',
              JStr (if analysis_context a = []
                    then [29992, 25143, 38656, 35201, 19987, 19994, 30340, 24110, 21161]
                    else analysis_context a)),
           (ascii ''requirements'', JList (analysis_requirements a)),
           (ascii ''format'', JStr (analysis_format a)),
           (ascii ''examples'', JList (generate_examples self (analysis_prompt_type a))),
           (ascii ''constraints'', JList (generate_constraints self (analysis_prompt_type a))),
           (ascii ''tone'', JStr (analysis_tone a)),
           (ascii ''prompt_type'', JStr (analysis_prompt_type a))]"
proof -
  obtain t where t: "extract_task self p = Inr t"
    using extract_task_total [of self p] by blast
  then obtain a where a: "analyze_natural_prompt self p = Inr a"
    by (simp add: analyze_natural_prompt_def Let_def)
  define r where "r =
     \<lparr> role = analysis_role a,
       task = analysis_task a,
       context = (if analysis_context a \<noteq> [] then analysis_context a
                  else [29992, 25143, 38656, 35201, 19987, 19994, 30340, 24110, 21161]),
       requirements = analysis_requirements a,
       format = analysis_format a,
       examples = generate_examples self (analysis_prompt_type a),
       constraints = generate_constraints self (analysis_prompt_type a),
       tone = analysis_tone a,
       prompt_type = analysis_prompt_type a \<rparr>"
  have r: "optimized_prompt self p = Inr r"
    by (simp add: optimized_prompt_def a r_def)
  have fields: "asdict r =
          [(ascii ''role'', JStr (analysis_role a)),
           (ascii ''task'', JStr (analysis_task a)),
           (ascii ''context'',
              JStr (if analysis_context a = []
                    then [29992, 25143, 38656, 35201, 19987, 19994, 30340, 24110, 21161]
                    else analysis_context a)),
           (ascii ''requirements'', JList (analysis_requirements a)),
           (ascii ''format'', JStr (analysis_format a)),
           (ascii ''examples'', JList (generate_examples self (analysis_prompt_type a))),
           (ascii ''constraints'', JList (generate_constraints self (analysis_prompt_type a))),
           (ascii ''tone'', JStr (analysis_tone a)),
           (ascii ''prompt_type'', JStr (analysis_prompt_type a))]"
    by (simp add: asdict_def r_def)
  have out: "optimize_prompt self p = Inr (json_dumps (asdict r))"
    by (simp add: optimize_prompt_def r)
  have "json_loads (json_dumps (asdict r)) = Some (asdict r)"
    by (rule json_loads_dumps [OF asdict_distinct])
  with a out fields show ?thesis by simp
qed

subsection \<open>C10: sizes of examples and constraints\<close>

text \<open>
  Claim C10. The record built for any input has one example and two constraints, and so
  has every prompt type, known or not: the fallback lists have the same sizes.
\<close>

theorem examples_constraints_sizes:
  "(\<exists>r. optimized_prompt self p = Inr r \<and> length (examples r) = 1 \<and> length (constraints r) = 2)
   \<and> length (generate_examples self t) = 1 \<and> length (generate_constraints self t) = 2"
  using optimized_prompt_Inr [of self p]
  by (auto simp: generate_examples_length generate_constraints_length)

end
